theory Spec2Isabelle
  imports Main "HOL-Library.Sublist"
begin

section \<open>Custom scripts: src/utils/custom-scripts.js\<close>

text \<open>
  The module reads the manifest \<^verbatim>\<open>custom-scripts.json\<close>, selects the entries that are
  to run at the current routing event and hands each of them to an executor: a script
  element added to the document's head on page load, a dynamic import on navigation.

  The embedding keeps the module's function names. What the module does to the browser
  is explicit state passing over the record \<open>browser\<close>; a \<^verbatim>\<open>throw\<close> is the value
  \<open>Some e\<close> in the first component of a result, and the promise an \<^verbatim>\<open>async\<close>
  function returns is a value of the type \<open>promise\<close>.
\<close>

subsection \<open>Data\<close>

text \<open>A JavaScript \<^verbatim>\<open>Error\<close> object, by its message.\<close>

datatype error = Error string

text \<open>
  A custom script, as an entry of the manifest. A property that the object does not have
  is \<open>None\<close>; the properties carry the types that the manifest's schema gives them.
\<close>

record custom_script =
  cs_run :: "string option"
  cs_url :: "string option"
  cs_name :: "string option"
  cs_type :: "string option"
  cs_async :: "bool option"
  cs_defer :: "bool option"
  cs_integrity :: "string option"

text \<open>
  The properties of an \<^verbatim>\<open>HTMLScriptElement\<close> that the module assigns.
  \<open>createElement_script\<close> is the element as \<^verbatim>\<open>document.createElement('script')\<close>
  returns it: \<^verbatim>\<open>async\<close> is true for an element created by a script (the comment in
  \<^verbatim>\<open>addScriptElement\<close> relies on it) and \<^verbatim>\<open>crossOrigin\<close> is null.
\<close>

record script_element =
  el_type :: string
  el_src :: string
  el_async :: bool
  el_defer :: bool
  el_integrity :: string
  el_crossOrigin :: "string option"

definition createElement_script :: script_element where
  "createElement_script =
     \<lparr>el_type = [], el_src = [], el_async = True, el_defer = False,
      el_integrity = [], el_crossOrigin = None\<rparr>"

text \<open>
  The promise that a call of the \<^verbatim>\<open>async\<close> function \<^verbatim>\<open>importScript\<close> returns: already
  rejected (an exception thrown in the body before its first \<^verbatim>\<open>await\<close>), or pending on
  the dynamic import of a module specifier, which settles in a later job of the event loop,
  never inside the synchronous code that started it.
\<close>

datatype promise = Rejected error | AwaitingImport string

text \<open>
  What the module changes: the script elements appended to \<^verbatim>\<open>document.head\<close>, the
  specifiers given to \<^verbatim>\<open>import()\<close>, both in the order of the calls, and the promises that
  a caller received and dropped without awaiting them.
\<close>

record browser =
  head_children :: "script_element list"
  imported :: "string list"
  dropped :: "promise list"

text \<open>
  The response of \<^verbatim>\<open>fetch\<close>: its \<^verbatim>\<open>ok\<close> flag and the result of \<^verbatim>\<open>response.json()\<close>,
  which rejects when the body is not JSON. A parsed body is given by the kind of its
  top-level value; the elements of an array are the entries.
\<close>

datatype parsed = JArray "custom_script list" | JObject | JString string | JNumber int
  | JBoolean bool | JNull

record response =
  ok :: bool
  json :: "error + parsed"

fun isArray :: "parsed \<Rightarrow> bool" where
  "isArray (JArray xs) = True"
| "isArray v = False"

fun elements :: "parsed \<Rightarrow> custom_script list" where
  "elements (JArray xs) = xs"
| "elements v = []"

subsection \<open>Helpers imported from other modules\<close>

text \<open>
  Modelled from the spec: \<^verbatim>\<open>has\<close> of \<^verbatim>\<open>docc-render/utils/object-properties\<close>, which is
  not among the sources. The spec speaks of a property being present or absent; the
  argument is the property, read from the object.
\<close>

definition has :: "'a option \<Rightarrow> bool" where
  "has property = (property \<noteq> None)"

text \<open>
  Modelled from the spec: \<^verbatim>\<open>mustNotHave\<close> of \<^verbatim>\<open>docc-render/utils/object-properties\<close>,
  which is not among the sources. By the spec, the presence of the property is a
  validation error with the given message; \<open>Some e\<close> is the error thrown.
\<close>

definition mustNotHave :: "'a option \<Rightarrow> string \<Rightarrow> error option" where
  "mustNotHave property errorMessage = (if has property then Some (Error errorMessage) else None)"

text \<open>
  Modelled from the spec: \<^verbatim>\<open>copyPropertyIfPresent\<close> of
  \<^verbatim>\<open>docc-render/utils/object-properties\<close>, which is not among the sources. By the spec a
  property is copied through if present; the property's name is given by the way to read
  it from the source and the way to assign it in the destination.
\<close>

definition copyPropertyIfPresent :: "('s \<Rightarrow> 'a option) \<Rightarrow> ('a \<Rightarrow> 'd \<Rightarrow> 'd) \<Rightarrow> 's \<Rightarrow> 'd \<Rightarrow> 'd" where
  "copyPropertyIfPresent get assign source destination =
     (case get source of None \<Rightarrow> destination | Some v \<Rightarrow> assign v destination)"

text \<open>
  Modelled from the spec: \<^verbatim>\<open>copyPresentProperties(['defer', 'integrity'], ...)\<close> of
  \<^verbatim>\<open>docc-render/utils/object-properties\<close>, which is not among the sources: each of the
  two properties is copied through if present, in the order of the array.
\<close>

definition copyPresentProperties_defer_integrity :: "custom_script \<Rightarrow> script_element \<Rightarrow> script_element" where
  "copyPresentProperties_defer_integrity source destination =
     copyPropertyIfPresent cs_integrity (\<lambda>v d. d\<lparr>el_integrity := v\<rparr>) source
       (copyPropertyIfPresent cs_defer (\<lambda>v d. d\<lparr>el_defer := v\<rparr>) source destination)"

text \<open>
  Modelled from the spec: \<^verbatim>\<open>resolveAbsoluteUrl\<close> of \<^verbatim>\<open>docc-render/utils/url-helper\<close>,
  which is not among the sources. By the spec the resolved URL is the concatenation of a
  configured base path and the given path, whose segments are joined by a slash. The base
  path is the parameter \<open>base\<close> of every function that resolves a URL; a path given as
  one string is the list of that string.
\<close>

fun pathJoin :: "string list \<Rightarrow> string" where
  "pathJoin [] = []"
| "pathJoin [s] = s"
| "pathJoin (s # t # ss) = s @ ''/'' @ pathJoin (t # ss)"

definition resolveAbsoluteUrl :: "string \<Rightarrow> string list \<Rightarrow> string" where
  "resolveAbsoluteUrl base parts = base @ pathJoin parts"

subsection \<open>The module\<close>

text \<open>The values of the \<^verbatim>\<open>Run\<close> enumeration.\<close>

definition Run_onLoad :: string where
  "Run_onLoad = ''on-load''"

definition Run_onLoadAndNavigate :: string where
  "Run_onLoadAndNavigate = ''on-load-and-navigate''"

definition Run_onNavigate :: string where
  "Run_onNavigate = ''on-navigate''"

definition shouldRunOnPageLoad :: "custom_script \<Rightarrow> bool" where
  "shouldRunOnPageLoad customScript =
     (\<not> has (cs_run customScript)
      \<or> cs_run customScript = Some Run_onLoad
      \<or> cs_run customScript = Some Run_onLoadAndNavigate)"

definition shouldRunOnNavigate :: "custom_script \<Rightarrow> bool" where
  "shouldRunOnNavigate customScript =
     (has (cs_run customScript)
      \<and> (cs_run customScript = Some Run_onNavigate
         \<or> cs_run customScript = Some Run_onLoadAndNavigate))"

text \<open>
  \<^verbatim>\<open>str.slice(-n)\<close>: the last \<open>n\<close> characters of the string, the whole string when it
  is shorter.
\<close>

definition slice_last :: "nat \<Rightarrow> string \<Rightarrow> string" where
  "slice_last n str = drop (length str - n) str"

definition urlGivenScriptName :: "string \<Rightarrow> string \<Rightarrow> string" where
  "urlGivenScriptName base customScriptName =
     (let scriptNameWithExtension =
            (if slice_last 3 customScriptName \<noteq> ''.js'' then customScriptName @ ''.js''
             else customScriptName)
      in resolveAbsoluteUrl base ['''', ''custom-scripts'', scriptNameWithExtension])"

definition appendChild :: "script_element \<Rightarrow> browser \<Rightarrow> browser" where
  "appendChild scriptElement b = b\<lparr>head_children := head_children b @ [scriptElement]\<rparr>"

text \<open>
  \<^verbatim>\<open>addScriptElement\<close> returns nothing; the result is the error thrown, if any, and the
  browser after the call. \<^verbatim>\<open>customScript.async || false\<close> is false for an absent
  property.
\<close>

definition addScriptElement :: "string \<Rightarrow> custom_script \<Rightarrow> browser \<Rightarrow> error option \<times> browser" where
  "addScriptElement base customScript b =
     (let scriptElement =
            copyPropertyIfPresent cs_type (\<lambda>v d. d\<lparr>el_type := v\<rparr>) customScript
              createElement_script
      in
        if has (cs_url customScript) then
          (case mustNotHave (cs_name customScript)
                  ''Custom script cannot have both `url` and `name`.'' of
             Some e \<Rightarrow> (Some e, b)
           | None \<Rightarrow>
               (let scriptElement = scriptElement\<lparr>el_src := the (cs_url customScript)\<rparr>;
                    scriptElement = scriptElement
                      \<lparr>el_async := (case cs_async customScript of None \<Rightarrow> False | Some a \<Rightarrow> a \<or> False)\<rparr>;
                    scriptElement = copyPresentProperties_defer_integrity customScript scriptElement;
                    scriptElement =
                      (if has (cs_integrity customScript)
                       then scriptElement\<lparr>el_crossOrigin := Some ''anonymous''\<rparr>
                       else scriptElement)
                in (None, appendChild scriptElement b)))
        else if has (cs_name customScript) then
          (let scriptElement = scriptElement
                 \<lparr>el_src := urlGivenScriptName base (the (cs_name customScript))\<rparr>;
               scriptElement = scriptElement
                 \<lparr>el_async := (case cs_async customScript of None \<Rightarrow> False | Some a \<Rightarrow> a \<or> False)\<rparr>;
               scriptElement = copyPresentProperties_defer_integrity customScript scriptElement
           in (None, appendChild scriptElement b))
        else (Some (Error ''Custom script has neither a `url` nor a `name` property.''), b))"

text \<open>
  \<^verbatim>\<open>await import(specifier)\<close> as the last statement of an \<^verbatim>\<open>async\<close> function: the import
  is started and the function returns its promise, pending on that import.
\<close>

definition await_import :: "string \<Rightarrow> browser \<Rightarrow> promise \<times> browser" where
  "await_import specifier b = (AwaitingImport specifier, b\<lparr>imported := imported b @ [specifier]\<rparr>)"

text \<open>
  \<^verbatim>\<open>importScript\<close> is \<^verbatim>\<open>async\<close>: a call never throws, an exception thrown in its body
  rejects the promise that the call returns.
\<close>

definition importScript :: "string \<Rightarrow> custom_script \<Rightarrow> browser \<Rightarrow> promise \<times> browser" where
  "importScript base customScript b =
     (if has (cs_url customScript) then
        (case mustNotHave (cs_name customScript)
                ''Custom script cannot have both `url` and `name`.'' of
           Some e \<Rightarrow> (Rejected e, b)
         | None \<Rightarrow> await_import (the (cs_url customScript)) b)
      else if has (cs_name customScript) then
        await_import (urlGivenScriptName base (the (cs_name customScript))) b
      else (Rejected (Error ''Custom script has neither a `url` nor a `name` property.''), b))"

text \<open>
  \<^verbatim>\<open>Array.prototype.forEach\<close> calls the callback on each element in order and ignores
  what it returns; an exception thrown by the callback ends the loop and leaves
  \<^verbatim>\<open>forEach\<close>, with the effects of the earlier calls in place.
\<close>

fun forEach :: "('a \<Rightarrow> 's \<Rightarrow> error option \<times> 's) \<Rightarrow> 'a list \<Rightarrow> 's \<Rightarrow> error option \<times> 's" where
  "forEach callback [] s = (None, s)"
| "forEach callback (x # xs) s =
     (case callback x s of
        (Some e, s') \<Rightarrow> (Some e, s')
      | (None, s') \<Rightarrow> forEach callback xs s')"

text \<open>
  An \<^verbatim>\<open>async\<close> function used as the callback of \<^verbatim>\<open>forEach\<close>: the call returns a
  promise and throws nothing, and \<^verbatim>\<open>forEach\<close> drops the promise.
\<close>

definition as_callback :: "('a \<Rightarrow> browser \<Rightarrow> promise \<times> browser) \<Rightarrow> 'a \<Rightarrow> browser \<Rightarrow> error option \<times> browser" where
  "as_callback asyncFunction x b =
     (case asyncFunction x b of (p, b') \<Rightarrow> (None, b'\<lparr>dropped := dropped b' @ [p]\<rparr>))"

definition customScriptsFileName :: string where
  "customScriptsFileName = ''custom-scripts.json''"

text \<open>
  \<^verbatim>\<open>runCustomScripts\<close> is \<^verbatim>\<open>async\<close> and awaits \<^verbatim>\<open>fetch\<close> and \<^verbatim>\<open>response.json()\<close>;
  the result is how its promise settles (\<open>None\<close>: fulfilled, \<open>Some e\<close>: rejected with
  \<open>e\<close>) and the browser at that moment. \<open>fetch\<close> maps a URL to the awaited response,
  or to the error that \<^verbatim>\<open>fetch\<close> rejects with.
\<close>

definition runCustomScripts ::
  "string \<Rightarrow> (string \<Rightarrow> error + response) \<Rightarrow> (custom_script \<Rightarrow> bool)
     \<Rightarrow> (custom_script \<Rightarrow> browser \<Rightarrow> error option \<times> browser) \<Rightarrow> browser \<Rightarrow> error option \<times> browser" where
  "runCustomScripts base fetch predicate executor b =
     (let url = resolveAbsoluteUrl base [''/'' @ customScriptsFileName] in
      case fetch url of
        Inl e \<Rightarrow> (Some e, b)
      | Inr response \<Rightarrow>
          if \<not> ok response then (None, b)
          else
            (case json response of
               Inl e \<Rightarrow> (Some e, b)
             | Inr customScripts \<Rightarrow>
                 if \<not> isArray customScripts
                 then (Some (Error (''Content of '' @ customScriptsFileName @ '' should be an array.'')), b)
                 else forEach executor (filter predicate (elements customScripts)) b))"

definition runCustomPageLoadScripts ::
  "string \<Rightarrow> (string \<Rightarrow> error + response) \<Rightarrow> browser \<Rightarrow> error option \<times> browser" where
  "runCustomPageLoadScripts base fetch b =
     runCustomScripts base fetch shouldRunOnPageLoad (addScriptElement base) b"

definition runCustomNavigateScripts ::
  "string \<Rightarrow> (string \<Rightarrow> error + response) \<Rightarrow> browser \<Rightarrow> error option \<times> browser" where
  "runCustomNavigateScripts base fetch b =
     runCustomScripts base fetch shouldRunOnNavigate (as_callback (importScript base)) b"

subsection \<open>Observations and sample inputs\<close>

text \<open>
  The specifiers of the promises that are still pending, in order: the dynamic imports that
  were started and whose completion nothing has awaited.
\<close>

fun pending_imports :: "promise list \<Rightarrow> string list" where
  "pending_imports [] = []"
| "pending_imports (AwaitingImport specifier # ps) = specifier # pending_imports ps"
| "pending_imports (Rejected e # ps) = pending_imports ps"

text \<open>
  The object \<^verbatim>\<open>{}\<close>, a page to which the module has done nothing yet, a
  \<^verbatim>\<open>fetch\<close> that finds the manifest with the given parsed body, and one that does not
  find it.
\<close>

definition empty_script :: custom_script where
  "empty_script =
     \<lparr>cs_run = None, cs_url = None, cs_name = None, cs_type = None, cs_async = None,
      cs_defer = None, cs_integrity = None\<rparr>"

definition fresh_page :: browser where
  "fresh_page = \<lparr>head_children = [], imported = [], dropped = []\<rparr>"

definition found :: "parsed \<Rightarrow> string \<Rightarrow> error + response" where
  "found body url = Inr \<lparr>ok = True, json = Inr body\<rparr>"

definition not_found :: "string \<Rightarrow> error + response" where
  "not_found url = Inr \<lparr>ok = False, json = Inl (Error ''Unexpected token'')\<rparr>"

section \<open>Properties\<close>

subsection \<open>Auxiliary facts\<close>

lemma slice_last_js: "slice_last 3 str = ''.js'' \<longleftrightarrow> suffix ''.js'' str"
proof
  assume h: "slice_last 3 str = ''.js''"
  have "str = take (length str - 3) str @ drop (length str - 3) str" by simp
  with h have "str = take (length str - 3) str @ ''.js''" by (simp add: slice_last_def)
  then show "suffix ''.js'' str" unfolding suffix_def by blast
next
  assume "suffix ''.js'' str"
  then obtain zs where "str = zs @ ''.js''" unfolding suffix_def by blast
  then show "slice_last 3 str = ''.js''" by (simp add: slice_last_def)
qed

lemma pending_imports_append: "pending_imports (ps @ qs) = pending_imports ps @ pending_imports qs"
  by (induction ps rule: pending_imports.induct) simp_all

lemma addScriptElement_throws:
  "fst (addScriptElement base c b) =
     (if has (cs_url c) \<and> has (cs_name c) then Some (Error ''Custom script cannot have both `url` and `name`.'')
      else if \<not> has (cs_url c) \<and> \<not> has (cs_name c) then Some (Error ''Custom script has neither a `url` nor a `name` property.'')
      else None)"
  by (simp add: addScriptElement_def mustNotHave_def Let_def)

lemma addScriptElement_thrown_state:
  "fst (addScriptElement base c b) \<noteq> None \<Longrightarrow> snd (addScriptElement base c b) = b"
  by (simp add: addScriptElement_def mustNotHave_def Let_def split: if_splits)

lemma addScriptElement_appends:
  "fst (addScriptElement base c b) = None \<Longrightarrow>
     \<exists>el. snd (addScriptElement base c b) = appendChild el b"
  by (auto simp add: addScriptElement_def mustNotHave_def Let_def split: if_splits)

lemma importScript_promise:
  "fst (importScript base c b) =
     (if has (cs_url c) \<and> has (cs_name c) then Rejected (Error ''Custom script cannot have both `url` and `name`.'')
      else if \<not> has (cs_url c) \<and> \<not> has (cs_name c) then Rejected (Error ''Custom script has neither a `url` nor a `name` property.'')
      else if has (cs_url c) then AwaitingImport (the (cs_url c))
      else AwaitingImport (urlGivenScriptName base (the (cs_name c))))"
  by (simp add: importScript_def mustNotHave_def await_import_def)

lemma importScript_promise_indep: "fst (importScript base c b') = fst (importScript base c b)"
  by (simp add: importScript_promise)

lemma importScript_state:
  "snd (importScript base c b) =
     b\<lparr>imported := imported b @ pending_imports [fst (importScript base c b)]\<rparr>"
  by (simp add: importScript_def mustNotHave_def await_import_def)

lemma forEach_importScript:
  "forEach (as_callback (importScript base)) xs b =
     (None, b\<lparr>imported := imported b @ pending_imports (map (\<lambda>c. fst (importScript base c b)) xs),
              dropped := dropped b @ map (\<lambda>c. fst (importScript base c b)) xs\<rparr>)"
proof (induction xs arbitrary: b)
  case Nil
  show ?case by simp
next
  case (Cons x xs)
  obtain p b' where call: "importScript base x b = (p, b')"
    by (cases "importScript base x b")
  have p: "p = fst (importScript base x b)" and b': "b' = snd (importScript base x b)"
    using call by simp_all
  let ?b = "b'\<lparr>dropped := dropped b' @ [p]\<rparr>"
  have step: "forEach (as_callback (importScript base)) (x # xs) b =
      forEach (as_callback (importScript base)) xs ?b"
    by (simp add: as_callback_def call)
  have same: "(\<lambda>c. fst (importScript base c ?b)) = (\<lambda>c. fst (importScript base c b))"
    by (rule ext) (rule importScript_promise_indep)
  show ?case
    unfolding step Cons.IH same
    by (cases p) (simp_all add: b' importScript_state p [symmetric])
qed

lemma forEach_append:
  "fst (forEach f xs s) = None \<Longrightarrow> forEach f (xs @ ys) s = forEach f ys (snd (forEach f xs s))"
  by (induction xs arbitrary: s) (auto split: prod.splits option.splits)

lemma forEach_addScriptElement_valid:
  "\<forall>x\<in>set xs. has (cs_url x) \<noteq> has (cs_name x) \<Longrightarrow>
     fst (forEach (addScriptElement base) xs b) = None
     \<and> length (head_children (snd (forEach (addScriptElement base) xs b))) =
         length (head_children b) + length xs"
proof (induction xs arbitrary: b)
  case Nil
  show ?case by simp
next
  case (Cons x xs)
  have ok: "fst (addScriptElement base x b) = None"
    using Cons.prems by (auto simp add: addScriptElement_throws)
  then obtain el where el: "addScriptElement base x b = (None, appendChild el b)"
    using addScriptElement_appends [OF ok] by (cases "addScriptElement base x b") auto
  show ?case
    using Cons.IH [of "appendChild el b"] Cons.prems
    by (simp add: el appendChild_def)
qed

lemma runCustomScripts_array:
  "fetch (resolveAbsoluteUrl base [''/'' @ customScriptsFileName]) = Inr r \<Longrightarrow> ok r \<Longrightarrow>
   json r = Inr (JArray customScripts) \<Longrightarrow>
     runCustomScripts base fetch predicate executor b =
       forEach executor (filter predicate customScripts) b"
  by (simp add: runCustomScripts_def)

lemma addScriptElement_throws_indep:
  "fst (addScriptElement base c b') = fst (addScriptElement base c b)"
  by (simp add: addScriptElement_throws)

lemma forEach_throw:
  "fst (f x s) \<noteq> None \<Longrightarrow> forEach f (x # xs) s = f x s"
  by (cases "f x s") (auto split: option.splits)

subsection \<open>A manifest with three entries\<close>

text \<open>
  The entries \<^verbatim>\<open>a\<close> (on load), \<^verbatim>\<open>b\<close> (on navigation) and \<^verbatim>\<open>c\<close> (no
  \<^verbatim>\<open>run\<close>): on page load \<^verbatim>\<open>a\<close> and \<^verbatim>\<open>c\<close> are added to the head in this order, on
  navigation \<^verbatim>\<open>b\<close> alone is imported.
\<close>

lemma end_to_end_example:
  "runCustomPageLoadScripts ''/docs''
     (found (JArray
        [empty_script\<lparr>cs_name := Some ''a'', cs_run := Some ''on-load''\<rparr>,
         empty_script\<lparr>cs_name := Some ''b'', cs_run := Some ''on-navigate''\<rparr>,
         empty_script\<lparr>cs_name := Some ''c''\<rparr>]))
     fresh_page =
   (None,
    \<lparr>head_children =
       [\<lparr>el_type = [], el_src = ''/docs/custom-scripts/a.js'', el_async = False,
         el_defer = False, el_integrity = [], el_crossOrigin = None\<rparr>,
        \<lparr>el_type = [], el_src = ''/docs/custom-scripts/c.js'', el_async = False,
         el_defer = False, el_integrity = [], el_crossOrigin = None\<rparr>],
     imported = [], dropped = []\<rparr>)"
  and "runCustomNavigateScripts ''/docs''
     (found (JArray
        [empty_script\<lparr>cs_name := Some ''a'', cs_run := Some ''on-load''\<rparr>,
         empty_script\<lparr>cs_name := Some ''b'', cs_run := Some ''on-navigate''\<rparr>,
         empty_script\<lparr>cs_name := Some ''c''\<rparr>]))
     fresh_page =
   (None,
    \<lparr>head_children = [], imported = [''/docs/custom-scripts/b.js''],
     dropped = [AwaitingImport ''/docs/custom-scripts/b.js'']\<rparr>)"
  by (simp_all add: runCustomPageLoadScripts_def runCustomNavigateScripts_def
      runCustomScripts_def found_def shouldRunOnPageLoad_def shouldRunOnNavigate_def
      Run_onLoad_def Run_onNavigate_def Run_onLoadAndNavigate_def has_def
      empty_script_def fresh_page_def as_callback_def importScript_def addScriptElement_def
      mustNotHave_def await_import_def copyPropertyIfPresent_def
      copyPresentProperties_defer_integrity_def createElement_script_def appendChild_def
      urlGivenScriptName_def slice_last_def resolveAbsoluteUrl_def)

subsection \<open>When a script runs\<close>

text \<open>
  C5: \<^verbatim>\<open>shouldRunOnPageLoad\<close> holds exactly when \<^verbatim>\<open>run\<close> is absent or is
  \<^verbatim>\<open>on-load\<close> or \<^verbatim>\<open>on-load-and-navigate\<close>; \<^verbatim>\<open>shouldRunOnNavigate\<close> holds exactly when
  \<^verbatim>\<open>run\<close> is present and is \<^verbatim>\<open>on-navigate\<close> or \<^verbatim>\<open>on-load-and-navigate\<close>. Both are
  functions of the entry alone: they read no state and return none.
\<close>

theorem run_predicates_exact:
  "(shouldRunOnPageLoad customScript \<longleftrightarrow>
      cs_run customScript = None
      \<or> cs_run customScript = Some ''on-load''
      \<or> cs_run customScript = Some ''on-load-and-navigate'')
   \<and> (shouldRunOnNavigate customScript \<longleftrightarrow>
      cs_run customScript \<noteq> None
      \<and> (cs_run customScript = Some ''on-navigate''
         \<or> cs_run customScript = Some ''on-load-and-navigate''))"
  by (simp add: shouldRunOnPageLoad_def shouldRunOnNavigate_def has_def
      Run_onLoad_def Run_onLoadAndNavigate_def Run_onNavigate_def)

theorem run_predicates_exact_witness:
  "shouldRunOnPageLoad empty_script \<and> \<not> shouldRunOnNavigate empty_script
   \<and> shouldRunOnNavigate (empty_script\<lparr>cs_run := Some ''on-navigate''\<rparr>)
   \<and> \<not> shouldRunOnPageLoad (empty_script\<lparr>cs_run := Some ''on-navigate''\<rparr>)"
  using run_predicates_exact [of empty_script]
    run_predicates_exact [of "empty_script\<lparr>cs_run := Some ''on-navigate''\<rparr>"]
  by (simp add: empty_script_def)

text \<open>
  C10: an entry whose \<^verbatim>\<open>run\<close> is present and is none of the three values of
  \<^verbatim>\<open>Run\<close> satisfies neither predicate. Both operations pass it over without an error:
  with the entry in the manifest they do what they do without it, whatever else the entry
  holds.
\<close>

theorem unrecognised_run_skipped:
  assumes "cs_run c = Some r"
    and "r \<noteq> ''on-load''" and "r \<noteq> ''on-load-and-navigate''" and "r \<noteq> ''on-navigate''"
  shows "\<not> shouldRunOnPageLoad c \<and> \<not> shouldRunOnNavigate c
    \<and> runCustomPageLoadScripts base (found (JArray (before @ c # after))) b =
        runCustomPageLoadScripts base (found (JArray (before @ after))) b
    \<and> runCustomNavigateScripts base (found (JArray (before @ c # after))) b =
        runCustomNavigateScripts base (found (JArray (before @ after))) b"
  using assms
  by (simp add: runCustomScripts_def runCustomPageLoadScripts_def runCustomNavigateScripts_def
      found_def shouldRunOnPageLoad_def shouldRunOnNavigate_def has_def
      Run_onLoad_def Run_onLoadAndNavigate_def Run_onNavigate_def)

theorem unrecognised_run_skipped_witness:
  "\<not> shouldRunOnPageLoad (empty_script\<lparr>cs_run := Some ''on-click''\<rparr>)
   \<and> \<not> shouldRunOnNavigate (empty_script\<lparr>cs_run := Some ''on-click''\<rparr>)
   \<and> runCustomPageLoadScripts ''/docs''
        (found (JArray ([empty_script\<lparr>cs_name := Some ''a''\<rparr>] @ empty_script\<lparr>cs_run := Some ''on-click''\<rparr> # []))) fresh_page =
      runCustomPageLoadScripts ''/docs''
        (found (JArray ([empty_script\<lparr>cs_name := Some ''a''\<rparr>] @ []))) fresh_page
   \<and> runCustomNavigateScripts ''/docs''
        (found (JArray ([empty_script\<lparr>cs_name := Some ''a''\<rparr>] @ empty_script\<lparr>cs_run := Some ''on-click''\<rparr> # []))) fresh_page =
      runCustomNavigateScripts ''/docs''
        (found (JArray ([empty_script\<lparr>cs_name := Some ''a''\<rparr>] @ []))) fresh_page"
  using unrecognised_run_skipped [of "empty_script\<lparr>cs_run := Some ''on-click''\<rparr>" "''on-click''"
      "''/docs''" "[empty_script\<lparr>cs_name := Some ''a''\<rparr>]" "[]" fresh_page]
  by (simp add: empty_script_def)

subsection \<open>The URL of a local script\<close>

text \<open>
  C6: \<^verbatim>\<open>urlGivenScriptName\<close> resolves the empty segment, the segment
  \<^verbatim>\<open>custom-scripts\<close> and the name, to which \<^verbatim>\<open>.js\<close> is appended exactly when the name
  does not end in it already. The URL is the base path, \<^verbatim>\<open>/custom-scripts/\<close> and that
  name: \<^verbatim>\<open>foo\<close> and \<^verbatim>\<open>foo.js\<close> resolve to the same URL, which ends in
  \<^verbatim>\<open>/custom-scripts/foo.js\<close>.
\<close>

theorem urlGivenScriptName_resolved:
  "urlGivenScriptName base customScriptName =
     resolveAbsoluteUrl base
       ['''', ''custom-scripts'',
        if suffix ''.js'' customScriptName then customScriptName else customScriptName @ ''.js'']
   \<and> urlGivenScriptName base customScriptName =
     base @ ''/custom-scripts/'' @
       (if suffix ''.js'' customScriptName then customScriptName else customScriptName @ ''.js'')
   \<and> urlGivenScriptName base ''foo'' = base @ ''/custom-scripts/foo.js''
   \<and> urlGivenScriptName base ''foo.js'' = base @ ''/custom-scripts/foo.js''"
proof (intro conjI)
  show "urlGivenScriptName base customScriptName =
     resolveAbsoluteUrl base
       ['''', ''custom-scripts'',
        if suffix ''.js'' customScriptName then customScriptName else customScriptName @ ''.js'']"
    by (simp add: urlGivenScriptName_def slice_last_js)
  show "urlGivenScriptName base customScriptName =
     base @ ''/custom-scripts/'' @
       (if suffix ''.js'' customScriptName then customScriptName else customScriptName @ ''.js'')"
    by (simp add: urlGivenScriptName_def resolveAbsoluteUrl_def slice_last_js)
  show "urlGivenScriptName base ''foo'' = base @ ''/custom-scripts/foo.js''"
    by (simp add: urlGivenScriptName_def resolveAbsoluteUrl_def slice_last_def)
  show "urlGivenScriptName base ''foo.js'' = base @ ''/custom-scripts/foo.js''"
    by (simp add: urlGivenScriptName_def resolveAbsoluteUrl_def slice_last_def)
qed

subsection \<open>The script element\<close>

text \<open>
  C1, as the spec has it, fails for a local script: an entry with \<^verbatim>\<open>name\<close> and
  \<^verbatim>\<open>integrity\<close> is added to the head, and the \<^verbatim>\<open>crossOrigin\<close> of its element is
  still null, not \<^verbatim>\<open>anonymous\<close>.
\<close>

theorem integrity_name_counterexample:
  "fst (addScriptElement ''/docs''
          (empty_script\<lparr>cs_name := Some ''a'', cs_integrity := Some ''sha384-abc''\<rparr>) fresh_page) = None
   \<and> map el_crossOrigin (head_children (snd (addScriptElement ''/docs''
          (empty_script\<lparr>cs_name := Some ''a'', cs_integrity := Some ''sha384-abc''\<rparr>) fresh_page)))
       = [None]
   \<and> map el_crossOrigin (head_children (snd (addScriptElement ''/docs''
          (empty_script\<lparr>cs_name := Some ''a'', cs_integrity := Some ''sha384-abc''\<rparr>) fresh_page)))
       \<noteq> [Some ''anonymous'']"
  by (simp add: addScriptElement_def empty_script_def has_def copyPropertyIfPresent_def
      copyPresentProperties_defer_integrity_def createElement_script_def appendChild_def
      fresh_page_def)

text \<open>
  C1, amended: for an entry whose source is its \<^verbatim>\<open>url\<close>, the element's
  \<^verbatim>\<open>crossOrigin\<close> is \<^verbatim>\<open>anonymous\<close> when the entry has \<^verbatim>\<open>integrity\<close> (and null
  when it has not); for an entry whose source is its \<^verbatim>\<open>name\<close>, \<^verbatim>\<open>crossOrigin\<close> is
  not assigned and stays null, with or without \<^verbatim>\<open>integrity\<close>.
\<close>

theorem integrity_crossOrigin:
  "(has (cs_url c) \<and> \<not> has (cs_name c) \<longrightarrow>
      (\<exists>el. addScriptElement base c b = (None, appendChild el b)
         \<and> el_crossOrigin el = (if has (cs_integrity c) then Some ''anonymous'' else None)))
   \<and> (\<not> has (cs_url c) \<and> has (cs_name c) \<longrightarrow>
      (\<exists>el. addScriptElement base c b = (None, appendChild el b) \<and> el_crossOrigin el = None))"
  by (auto simp add: addScriptElement_def mustNotHave_def Let_def createElement_script_def
      copyPropertyIfPresent_def copyPresentProperties_defer_integrity_def has_def
      split: option.split)

theorem integrity_crossOrigin_witness:
  "(\<exists>el. addScriptElement ''/docs''
       (empty_script\<lparr>cs_url := Some ''https://example.com/a.js'', cs_integrity := Some ''sha384-abc''\<rparr>)
       fresh_page = (None, appendChild el fresh_page)
     \<and> el_crossOrigin el = Some ''anonymous'')
   \<and> (\<exists>el. addScriptElement ''/docs''
       (empty_script\<lparr>cs_name := Some ''a'', cs_integrity := Some ''sha384-abc''\<rparr>)
       fresh_page = (None, appendChild el fresh_page)
     \<and> el_crossOrigin el = None)"
  using integrity_crossOrigin [of "empty_script\<lparr>cs_url := Some ''https://example.com/a.js'', cs_integrity := Some ''sha384-abc''\<rparr>" "''/docs''" fresh_page]
    integrity_crossOrigin [of "empty_script\<lparr>cs_name := Some ''a'', cs_integrity := Some ''sha384-abc''\<rparr>" "''/docs''" fresh_page]
  by (simp add: empty_script_def has_def)

text \<open>
  C9: for an entry with exactly one of \<^verbatim>\<open>url\<close> and \<^verbatim>\<open>name\<close>, the element that
  \<^verbatim>\<open>addScriptElement\<close> appends has \<^verbatim>\<open>async\<close> assigned: the entry's value when it
  has one, false otherwise, which is not the value of a newly created element.
\<close>

theorem async_assigned:
  "has (cs_url c) \<noteq> has (cs_name c) \<Longrightarrow>
     \<exists>el. addScriptElement base c b = (None, appendChild el b)
       \<and> el_async el = (case cs_async c of None \<Rightarrow> False | Some a \<Rightarrow> a)
       \<and> (cs_async c = None \<longrightarrow> el_async el \<noteq> el_async createElement_script)"
  by (auto simp add: addScriptElement_def mustNotHave_def Let_def createElement_script_def
      copyPropertyIfPresent_def copyPresentProperties_defer_integrity_def has_def
      split: option.split)

theorem async_assigned_witness:
  "(\<exists>el. addScriptElement ''/docs'' (empty_script\<lparr>cs_name := Some ''a''\<rparr>) fresh_page
        = (None, appendChild el fresh_page) \<and> el_async el = False)
   \<and> (\<exists>el. addScriptElement ''/docs''
        (empty_script\<lparr>cs_url := Some ''https://example.com/a.js'', cs_async := Some True\<rparr>) fresh_page
        = (None, appendChild el fresh_page) \<and> el_async el = True)"
  using async_assigned [of "empty_script\<lparr>cs_name := Some ''a''\<rparr>" "''/docs''" fresh_page]
    async_assigned [of "empty_script\<lparr>cs_url := Some ''https://example.com/a.js'', cs_async := Some True\<rparr>" "''/docs''" fresh_page]
  by (auto simp add: empty_script_def has_def)

subsection \<open>Entries without a single source\<close>

text \<open>
  C4, as the spec has it, fails in the wording of the messages: the messages of the errors
  are not the two that the claim quotes.
\<close>

theorem source_error_message_counterexample:
  "fst (addScriptElement ''/docs''
         (empty_script\<lparr>cs_url := Some ''https://example.com/a.js'', cs_name := Some ''a''\<rparr>) fresh_page)
     \<noteq> Some (Error ''Custom script cannot have both url and name'')
   \<and> fst (addScriptElement ''/docs'' empty_script fresh_page)
     \<noteq> Some (Error ''Custom script has neither a url nor a name property'')"
  by (simp add: addScriptElement_throws empty_script_def has_def)

text \<open>
  C4, amended: \<^verbatim>\<open>addScriptElement\<close> throws, and the promise of \<^verbatim>\<open>importScript\<close> is
  rejected with, an error exactly when the entry has both \<^verbatim>\<open>url\<close> and \<^verbatim>\<open>name\<close>
  (message: Custom script cannot have both `url` and `name`.) or neither of them (message:
  Custom script has neither a `url` nor a `name` property.). With exactly one of the two,
  \<^verbatim>\<open>addScriptElement\<close> throws nothing and \<^verbatim>\<open>importScript\<close> awaits the import.
\<close>

theorem source_errors:
  "(fst (addScriptElement base c b) = Some (Error ''Custom script cannot have both `url` and `name`.'')
      \<longleftrightarrow> has (cs_url c) \<and> has (cs_name c))
   \<and> (fst (addScriptElement base c b) = Some (Error ''Custom script has neither a `url` nor a `name` property.'')
      \<longleftrightarrow> \<not> has (cs_url c) \<and> \<not> has (cs_name c))
   \<and> (fst (addScriptElement base c b) = None \<longleftrightarrow> has (cs_url c) \<noteq> has (cs_name c))
   \<and> (fst (importScript base c b) = Rejected (Error ''Custom script cannot have both `url` and `name`.'')
      \<longleftrightarrow> has (cs_url c) \<and> has (cs_name c))
   \<and> (fst (importScript base c b) = Rejected (Error ''Custom script has neither a `url` nor a `name` property.'')
      \<longleftrightarrow> \<not> has (cs_url c) \<and> \<not> has (cs_name c))
   \<and> ((\<exists>specifier. fst (importScript base c b) = AwaitingImport specifier)
      \<longleftrightarrow> has (cs_url c) \<noteq> has (cs_name c))"
  by (simp add: addScriptElement_throws importScript_promise)

theorem source_errors_witness:
  "fst (addScriptElement ''/docs''
         (empty_script\<lparr>cs_url := Some ''https://example.com/a.js'', cs_name := Some ''a''\<rparr>) fresh_page)
     = Some (Error ''Custom script cannot have both `url` and `name`.'')
   \<and> fst (importScript ''/docs'' empty_script fresh_page)
     = Rejected (Error ''Custom script has neither a `url` nor a `name` property.'')
   \<and> fst (addScriptElement ''/docs'' (empty_script\<lparr>cs_name := Some ''a''\<rparr>) fresh_page) = None"
  using source_errors [of "''/docs''" "empty_script\<lparr>cs_url := Some ''https://example.com/a.js'', cs_name := Some ''a''\<rparr>" fresh_page]
    source_errors [of "''/docs''" empty_script fresh_page]
    source_errors [of "''/docs''" "empty_script\<lparr>cs_name := Some ''a''\<rparr>" fresh_page]
  by (simp add: empty_script_def has_def)

subsection \<open>The manifest\<close>

text \<open>
  C7: when the response to the fetch of the manifest is not \<^verbatim>\<open>ok\<close>, the operation
  returns without an error and has executed no entry: the browser is as it was.
\<close>

theorem manifest_absent:
  "fetch (resolveAbsoluteUrl base [''/'' @ customScriptsFileName]) = Inr r \<Longrightarrow> \<not> ok r \<Longrightarrow>
     runCustomScripts base fetch predicate executor b = (None, b)
     \<and> runCustomPageLoadScripts base fetch b = (None, b)
     \<and> runCustomNavigateScripts base fetch b = (None, b)"
  by (simp add: runCustomScripts_def runCustomPageLoadScripts_def runCustomNavigateScripts_def)

theorem manifest_absent_witness:
  "runCustomPageLoadScripts ''/docs'' not_found fresh_page = (None, fresh_page)
   \<and> runCustomNavigateScripts ''/docs'' not_found fresh_page = (None, fresh_page)"
  using manifest_absent [where fetch = not_found and base = "''/docs''" and b = fresh_page
      and r = "\<lparr>ok = False, json = Inl (Error ''Unexpected token'')\<rparr>"]
  by (simp add: not_found_def)

text \<open>
  C8: when the response is \<^verbatim>\<open>ok\<close> and its parsed body is not an array, the operation
  fails with the error that \<^verbatim>\<open>runCustomScripts\<close> throws for the format of the manifest,
  before any entry is executed, and both exported operations pass the error on to their
  caller.
\<close>

theorem manifest_not_array:
  "fetch (resolveAbsoluteUrl base [''/'' @ customScriptsFileName]) = Inr r \<Longrightarrow> ok r \<Longrightarrow>
   json r = Inr body \<Longrightarrow> \<not> isArray body \<Longrightarrow>
     runCustomScripts base fetch predicate executor b =
       (Some (Error ''Content of custom-scripts.json should be an array.''), b)
     \<and> runCustomPageLoadScripts base fetch b =
       (Some (Error ''Content of custom-scripts.json should be an array.''), b)
     \<and> runCustomNavigateScripts base fetch b =
       (Some (Error ''Content of custom-scripts.json should be an array.''), b)"
  by (simp add: runCustomScripts_def runCustomPageLoadScripts_def runCustomNavigateScripts_def
      customScriptsFileName_def)

theorem manifest_not_array_witness:
  "runCustomPageLoadScripts ''/docs'' (found JObject) fresh_page =
     (Some (Error ''Content of custom-scripts.json should be an array.''), fresh_page)
   \<and> runCustomNavigateScripts ''/docs'' (found JObject) fresh_page =
     (Some (Error ''Content of custom-scripts.json should be an array.''), fresh_page)"
  using manifest_not_array [where fetch = "found JObject" and base = "''/docs''" and b = fresh_page
      and r = "\<lparr>ok = True, json = Inr JObject\<rparr>" and body = JObject]
  by (simp add: found_def)

subsection \<open>Dispatch\<close>

text \<open>
  C2, as the spec has it, fails: with two scripts to run on navigation, the operation
  resolves when both imports have been started and both are still pending. So the second
  import began while the first was pending, and neither was complete when the operation
  resolved.
\<close>

theorem navigate_not_awaited_counterexample:
  "fst (runCustomNavigateScripts ''/docs''
          (found (JArray
             [empty_script\<lparr>cs_run := Some ''on-navigate'', cs_url := Some ''https://example.com/a.js''\<rparr>,
              empty_script\<lparr>cs_run := Some ''on-navigate'', cs_name := Some ''b''\<rparr>]))
          fresh_page) = None
   \<and> imported (snd (runCustomNavigateScripts ''/docs''
          (found (JArray
             [empty_script\<lparr>cs_run := Some ''on-navigate'', cs_url := Some ''https://example.com/a.js''\<rparr>,
              empty_script\<lparr>cs_run := Some ''on-navigate'', cs_name := Some ''b''\<rparr>]))
          fresh_page))
       = [''https://example.com/a.js'', ''/docs/custom-scripts/b.js'']
   \<and> pending_imports (dropped (snd (runCustomNavigateScripts ''/docs''
          (found (JArray
             [empty_script\<lparr>cs_run := Some ''on-navigate'', cs_url := Some ''https://example.com/a.js''\<rparr>,
              empty_script\<lparr>cs_run := Some ''on-navigate'', cs_name := Some ''b''\<rparr>]))
          fresh_page)))
       = [''https://example.com/a.js'', ''/docs/custom-scripts/b.js'']"
  by (simp add: runCustomNavigateScripts_def runCustomScripts_def found_def
      shouldRunOnNavigate_def Run_onNavigate_def Run_onLoadAndNavigate_def has_def
      empty_script_def fresh_page_def as_callback_def importScript_def mustNotHave_def
      await_import_def urlGivenScriptName_def slice_last_def resolveAbsoluteUrl_def)

text \<open>
  C2, amended: \<^verbatim>\<open>runCustomNavigateScripts\<close> calls \<^verbatim>\<open>importScript\<close> on the entries
  that \<^verbatim>\<open>shouldRunOnNavigate\<close> selects, in the order of the manifest, so that their
  imports are started in that order; it awaits none of them. Each promise is dropped by
  \<^verbatim>\<open>forEach\<close>, and the operation resolves, without an error, once every selected entry
  has been handed to \<^verbatim>\<open>importScript\<close>.
\<close>

theorem navigate_imports_started:
  assumes "fetch (resolveAbsoluteUrl base [''/'' @ customScriptsFileName]) = Inr r"
    and "ok r" and "json r = Inr (JArray customScripts)"
  shows "runCustomNavigateScripts base fetch b =
     (None,
      b\<lparr>imported := imported b @
           pending_imports (map (\<lambda>c. fst (importScript base c b))
             (filter shouldRunOnNavigate customScripts)),
        dropped := dropped b @
           map (\<lambda>c. fst (importScript base c b)) (filter shouldRunOnNavigate customScripts)\<rparr>)"
  unfolding runCustomNavigateScripts_def runCustomScripts_array [where fetch = fetch, OF assms]
  by (rule forEach_importScript)

theorem navigate_imports_started_witness:
  "runCustomNavigateScripts ''/docs''
     (found (JArray
        [empty_script\<lparr>cs_run := Some ''on-navigate'', cs_url := Some ''https://example.com/a.js''\<rparr>,
         empty_script\<lparr>cs_name := Some ''c''\<rparr>,
         empty_script\<lparr>cs_run := Some ''on-load-and-navigate'', cs_name := Some ''b.js''\<rparr>]))
     fresh_page =
   (None,
    \<lparr>head_children = [],
     imported = [''https://example.com/a.js'', ''/docs/custom-scripts/b.js''],
     dropped = [AwaitingImport ''https://example.com/a.js'',
                AwaitingImport ''/docs/custom-scripts/b.js'']\<rparr>)"
  using navigate_imports_started [where fetch = "found (JArray
        [empty_script\<lparr>cs_run := Some ''on-navigate'', cs_url := Some ''https://example.com/a.js''\<rparr>,
         empty_script\<lparr>cs_name := Some ''c''\<rparr>,
         empty_script\<lparr>cs_run := Some ''on-load-and-navigate'', cs_name := Some ''b.js''\<rparr>])"
      and base = "''/docs''" and b = fresh_page
      and r = "\<lparr>ok = True, json = Inr (JArray
        [empty_script\<lparr>cs_run := Some ''on-navigate'', cs_url := Some ''https://example.com/a.js''\<rparr>,
         empty_script\<lparr>cs_name := Some ''c''\<rparr>,
         empty_script\<lparr>cs_run := Some ''on-load-and-navigate'', cs_name := Some ''b.js''\<rparr>])\<rparr>"
      and customScripts = "[empty_script\<lparr>cs_run := Some ''on-navigate'', cs_url := Some ''https://example.com/a.js''\<rparr>,
         empty_script\<lparr>cs_name := Some ''c''\<rparr>,
         empty_script\<lparr>cs_run := Some ''on-load-and-navigate'', cs_name := Some ''b.js''\<rparr>]"]
  by (simp add: found_def shouldRunOnNavigate_def Run_onNavigate_def Run_onLoadAndNavigate_def
      has_def empty_script_def fresh_page_def importScript_promise urlGivenScriptName_def
      slice_last_def resolveAbsoluteUrl_def)

text \<open>
  C3, as the spec has it, fails on navigation: the first entry has no source, its error
  rejects a promise that is dropped, the operation resolves without an error and the
  second entry is imported all the same.
\<close>

theorem navigate_error_not_surfaced_counterexample:
  "fst (runCustomNavigateScripts ''/docs''
          (found (JArray
             [empty_script\<lparr>cs_run := Some ''on-navigate''\<rparr>,
              empty_script\<lparr>cs_run := Some ''on-navigate'', cs_name := Some ''b''\<rparr>]))
          fresh_page) = None
   \<and> dropped (snd (runCustomNavigateScripts ''/docs''
          (found (JArray
             [empty_script\<lparr>cs_run := Some ''on-navigate''\<rparr>,
              empty_script\<lparr>cs_run := Some ''on-navigate'', cs_name := Some ''b''\<rparr>]))
          fresh_page))
       = [Rejected (Error ''Custom script has neither a `url` nor a `name` property.''),
          AwaitingImport ''/docs/custom-scripts/b.js'']
   \<and> imported (snd (runCustomNavigateScripts ''/docs''
          (found (JArray
             [empty_script\<lparr>cs_run := Some ''on-navigate''\<rparr>,
              empty_script\<lparr>cs_run := Some ''on-navigate'', cs_name := Some ''b''\<rparr>]))
          fresh_page))
       = [''/docs/custom-scripts/b.js'']"
  by (simp add: runCustomNavigateScripts_def runCustomScripts_def found_def
      shouldRunOnNavigate_def Run_onNavigate_def Run_onLoadAndNavigate_def has_def
      empty_script_def fresh_page_def as_callback_def importScript_def mustNotHave_def
      await_import_def urlGivenScriptName_def slice_last_def resolveAbsoluteUrl_def)

text \<open>
  C3, amended: on page load, the error that \<^verbatim>\<open>addScriptElement\<close> throws for the first
  selected entry with both or neither of \<^verbatim>\<open>url\<close> and \<^verbatim>\<open>name\<close> is the outcome of
  \<^verbatim>\<open>runCustomPageLoadScripts\<close>, and the browser is as the entries before that one left
  it: no later entry is executed. On navigation, \<^verbatim>\<open>runCustomNavigateScripts\<close> never
  fails for an entry: the error of an entry rejects only the promise of its
  \<^verbatim>\<open>importScript\<close> call, which is dropped, and every selected entry is handed to
  \<^verbatim>\<open>importScript\<close>.
\<close>

theorem dispatch_errors:
  assumes "fetch (resolveAbsoluteUrl base [''/'' @ customScriptsFileName]) = Inr r"
    and "ok r" and "json r = Inr (JArray customScripts)"
  shows "(filter shouldRunOnPageLoad customScripts = before @ c # after
        \<and> (\<forall>x\<in>set before. has (cs_url x) \<noteq> has (cs_name x))
        \<and> has (cs_url c) = has (cs_name c) \<longrightarrow>
      runCustomPageLoadScripts base fetch b =
        (fst (addScriptElement base c b), snd (forEach (addScriptElement base) before b))
      \<and> fst (addScriptElement base c b) \<noteq> None
      \<and> fst (forEach (addScriptElement base) before b) = None
      \<and> length (head_children (snd (runCustomPageLoadScripts base fetch b))) =
          length (head_children b) + length before)
    \<and> fst (runCustomNavigateScripts base fetch b) = None
    \<and> dropped (snd (runCustomNavigateScripts base fetch b)) =
        dropped b @ map (\<lambda>c. fst (importScript base c b)) (filter shouldRunOnNavigate customScripts)"
proof (intro conjI impI)
  assume h: "filter shouldRunOnPageLoad customScripts = before @ c # after
        \<and> (\<forall>x\<in>set before. has (cs_url x) \<noteq> has (cs_name x))
        \<and> has (cs_url c) = has (cs_name c)"
  let ?f = "addScriptElement base"
  let ?b1 = "snd (forEach ?f before b)"
  have before: "fst (forEach ?f before b) = None"
    and len: "length (head_children ?b1) = length (head_children b) + length before"
    using forEach_addScriptElement_valid [of before base b] h by simp_all
  have throws: "fst (?f c b) \<noteq> None"
    using h by (simp add: addScriptElement_throws)
  then have throws1: "fst (?f c ?b1) \<noteq> None"
    by (simp add: addScriptElement_throws_indep [of base c ?b1 b])
  have "runCustomPageLoadScripts base fetch b = forEach ?f (before @ c # after) b"
    using h by (simp add: runCustomPageLoadScripts_def runCustomScripts_array [where fetch = fetch, OF assms])
  also have "\<dots> = forEach ?f (c # after) ?b1"
    by (rule forEach_append [OF before])
  also have "\<dots> = ?f c ?b1"
    by (rule forEach_throw [where f = "addScriptElement base", OF throws1])
  also have "\<dots> = (fst (?f c b), ?b1)"
    using addScriptElement_thrown_state [OF throws1]
      addScriptElement_throws_indep [of base c ?b1 b]
    by (simp add: prod_eq_iff)
  finally show run: "runCustomPageLoadScripts base fetch b = (fst (?f c b), ?b1)" .
  show "fst (?f c b) \<noteq> None" by (rule throws)
  show "fst (forEach ?f before b) = None" by (rule before)
  show "length (head_children (snd (runCustomPageLoadScripts base fetch b))) =
      length (head_children b) + length before"
    by (simp add: run len)
next
  have run: "runCustomNavigateScripts base fetch b =
      forEach (as_callback (importScript base)) (filter shouldRunOnNavigate customScripts) b"
    by (simp add: runCustomNavigateScripts_def runCustomScripts_array [where fetch = fetch, OF assms])
  show "fst (runCustomNavigateScripts base fetch b) = None"
    by (simp add: run forEach_importScript)
  show "dropped (snd (runCustomNavigateScripts base fetch b)) =
      dropped b @ map (\<lambda>c. fst (importScript base c b)) (filter shouldRunOnNavigate customScripts)"
    by (simp add: run forEach_importScript)
qed

theorem dispatch_errors_witness:
  "runCustomPageLoadScripts ''/docs''
     (found (JArray
        [empty_script\<lparr>cs_name := Some ''a''\<rparr>, empty_script, empty_script\<lparr>cs_name := Some ''c''\<rparr>]))
     fresh_page =
   (Some (Error ''Custom script has neither a `url` nor a `name` property.''),
    \<lparr>head_children =
       [\<lparr>el_type = [], el_src = ''/docs/custom-scripts/a.js'', el_async = False,
         el_defer = False, el_integrity = [], el_crossOrigin = None\<rparr>],
     imported = [], dropped = []\<rparr>)
   \<and> fst (runCustomNavigateScripts ''/docs''
     (found (JArray
        [empty_script\<lparr>cs_name := Some ''a''\<rparr>, empty_script, empty_script\<lparr>cs_name := Some ''c''\<rparr>]))
     fresh_page) = None"
  using dispatch_errors [where fetch = "found (JArray
        [empty_script\<lparr>cs_name := Some ''a''\<rparr>, empty_script, empty_script\<lparr>cs_name := Some ''c''\<rparr>])"
      and base = "''/docs''" and b = fresh_page
      and r = "\<lparr>ok = True, json = Inr (JArray
        [empty_script\<lparr>cs_name := Some ''a''\<rparr>, empty_script, empty_script\<lparr>cs_name := Some ''c''\<rparr>])\<rparr>"
      and customScripts = "[empty_script\<lparr>cs_name := Some ''a''\<rparr>, empty_script, empty_script\<lparr>cs_name := Some ''c''\<rparr>]"
      and before = "[empty_script\<lparr>cs_name := Some ''a''\<rparr>]" and c = empty_script
      and after = "[empty_script\<lparr>cs_name := Some ''c''\<rparr>]"]
  by (simp add: found_def shouldRunOnPageLoad_def has_def empty_script_def fresh_page_def
      addScriptElement_def mustNotHave_def copyPropertyIfPresent_def
      copyPresentProperties_defer_integrity_def createElement_script_def appendChild_def
      urlGivenScriptName_def slice_last_def resolveAbsoluteUrl_def)

end
